theory Spec2Isabelle
  imports Main
begin

section \<open>CloudTrail event pagination (cmd/cloudtrail/event.go)\<close>

subsection \<open>Data\<close>

text \<open>
  A Go slice is either \<open>nil\<close> or a sequence of elements; \<open>None\<close> stands for the
  \<open>nil\<close> slice. Ranging over or appending a \<open>nil\<close> slice sees no element.
\<close>

type_synonym 'a slice = "'a list option"

definition slice_elems :: "'a slice \<Rightarrow> 'a list" where
  "slice_elems s = (case s of None \<Rightarrow> [] | Some xs \<Rightarrow> xs)"

text \<open>
  \<open>Period\<close> is declared elsewhere in the package; \<open>GetEvents\<close> reads its two time
  stamps only. The type of time stamps is left open.
\<close>

record 't Period =
  StartTime :: 't
  EndTime :: 't

text \<open>The SDK's request and response structures, with the fields \<open>GetEvents\<close> touches.\<close>

record LookupAttribute =
  AttributeKey :: string
  AttributeValue :: "string option"

record 't LookupEventsInput =
  StartTime :: "'t option"
  EndTime :: "'t option"
  LookupAttributes :: "LookupAttribute slice"

record 'e LookupEventsOutput =
  Events :: "'e slice"

record ('e, 'err) EventResult =
  AWSEvent :: "'e slice"
  errors :: "'err option"

record 'c EventAPI =
  client :: 'c
  writeOnly :: bool

text \<open>
  \<open>NewEventAPI\<close>: a client for the given region when one is named, the client of the
  configuration otherwise. The two SDK constructors are parameters.
\<close>

definition NewEventAPI ::
  "(string \<Rightarrow> 'cfg \<Rightarrow> 'c) \<Rightarrow> ('cfg \<Rightarrow> 'c) \<Rightarrow> 'cfg \<Rightarrow> bool \<Rightarrow> string \<Rightarrow> 'c EventAPI" where
  "NewEventAPI cloudtrail_New cloudtrail_NewFromConfig cfg wo region =
     \<lparr>client = (if region \<noteq> [] then cloudtrail_New region cfg else cloudtrail_NewFromConfig cfg),
      writeOnly = wo\<rparr>"

subsection \<open>The remote collaborator\<close>

text \<open>
  The SDK's paginator is not part of the repository. It is a parameter: a paginator
  state \<open>'p\<close> built from the client and the query, the test \<open>HasMorePages\<close>, and
  \<open>NextPage\<close>, which returns Go's pair of an output pointer (\<open>None\<close> is \<open>nil\<close>) and an
  error (\<open>None\<close> is \<open>nil\<close>) together with the advanced paginator.
\<close>

type_synonym ('e, 'err) fetch = "'e LookupEventsOutput option \<times> 'err option"

record ('c, 't, 'e, 'err, 'p) paginator_sdk =
  NewLookupEventsPaginator :: "'c \<Rightarrow> 't LookupEventsInput \<Rightarrow> 'p"
  HasMorePages :: "'p \<Rightarrow> bool"
  NextPage :: "'p \<Rightarrow> ('e, 'err) fetch \<times> 'p"

subsection \<open>The producer\<close>

text \<open>
  What the producer goroutine does to \<open>pageChan\<close>, in order. The channel is unbuffered,
  so a \<open>Send\<close> in the trace is a value the consumer has taken.
\<close>

datatype ('e, 'err) chan_op = Send "('e, 'err) EventResult" | Close

datatype outcome = Returned | NilPointerDereference

record ('e, 'err, 'p) run =
  pageChan :: "('e, 'err) chan_op list"
  outcome :: outcome
  paginator :: 'p

text \<open>The query \<open>GetEvents\<close> builds (lines 65 to 75).\<close>

definition GetEvents_input :: "'c EventAPI \<Rightarrow> 't Period \<Rightarrow> 't LookupEventsInput" where
  "GetEvents_input a missing =
     (let input = \<lparr>StartTime = Some (Period.StartTime missing),
                   EndTime = Some (Period.EndTime missing),
                   LookupAttributes = None\<rparr>
      in if writeOnly a
         then input\<lparr>LookupAttributes :=
                Some [\<lparr>AttributeKey = ''ReadOnly'', AttributeValue = Some ''false''\<rparr>]\<rparr>
         else input)"

text \<open>The result sent when \<open>err\<close> is not \<open>nil\<close> (lines 83 to 88); nothing otherwise.\<close>

definition send_error :: "'err option \<Rightarrow> ('e, 'err) chan_op list" where
  "send_error err =
     (case err of None \<Rightarrow> []
      | Some e \<Rightarrow> [Send \<lparr>AWSEvent = None, errors = Some e\<rparr>])"

text \<open>
  The loop of lines 81 to 96. After the test of \<open>err\<close> the body goes on to read
  \<open>lookupOutput.Events\<close> in every case: with a \<open>nil\<close> output that read is a nil pointer
  dereference and the goroutine panics. The loop need not end, whence the option.
\<close>

partial_function (option) for_HasMorePages ::
  "('c, 't, 'e, 'err, 'p) paginator_sdk \<Rightarrow> 'p \<Rightarrow> 'e list \<Rightarrow> ('e, 'err) chan_op list
     \<Rightarrow> (outcome \<times> 'p \<times> 'e list \<times> ('e, 'err) chan_op list) option" where
  "for_HasMorePages sdk pg alllookupEvents sent =
     (if HasMorePages sdk pg then
        (case NextPage sdk pg of
           ((lookupOutput, err), pg') \<Rightarrow>
             (case lookupOutput of
                None \<Rightarrow> Some (NilPointerDereference, pg', alllookupEvents, sent @ send_error err)
              | Some out \<Rightarrow>
                  for_HasMorePages sdk pg'
                    (alllookupEvents @ slice_elems (Events out))
                    (sent @ send_error err @ [Send \<lparr>AWSEvent = Events out, errors = None\<rparr>])))
      else Some (Returned, pg, alllookupEvents, sent))"

text \<open>
  The goroutine: the loop, then the deferred \<open>close(pageChan)\<close>, which runs when the
  function returns and also when it panics.
\<close>

definition goroutine ::
  "('c, 't, 'e, 'err, 'p) paginator_sdk \<Rightarrow> 'p \<Rightarrow> ('e, 'err, 'p) run option" where
  "goroutine sdk pg =
     (case for_HasMorePages sdk pg [] [] of
        None \<Rightarrow> None
      | Some (oc, pg', alllookupEvents, sent) \<Rightarrow>
          Some \<lparr>pageChan = sent @ [Close], outcome = oc, paginator = pg'\<rparr>)"

text \<open>\<open>GetEvents\<close>; its first argument is the blank identifier.\<close>

definition GetEvents ::
  "('c, 't, 'e, 'err, 'p) paginator_sdk \<Rightarrow> 'c EventAPI \<Rightarrow> string \<Rightarrow> 't Period
     \<Rightarrow> ('e, 'err, 'p) run option" where
  "GetEvents sdk a unused missing =
     goroutine sdk (NewLookupEventsPaginator sdk (client a) (GetEvents_input a missing))"

text \<open>A consumer ranging over the channel: the values sent before it is closed.\<close>

fun range_chan :: "('e, 'err) chan_op list \<Rightarrow> ('e, 'err) EventResult list" where
  "range_chan [] = []"
| "range_chan (Send r # ops) = r # range_chan ops"
| "range_chan (Close # ops) = []"

subsection \<open>A scripted collaborator\<close>

text \<open>
  A remote service that answers the query of a client with a sequence of fetch outcomes: the
  paginator holds the outcomes not yet fetched, has more pages while one is left, and
  each \<open>NextPage\<close> returns the next one. Past the end the SDK returns a \<open>nil\<close> output
  and an error.
\<close>

definition scripted ::
  "('c \<Rightarrow> 't LookupEventsInput \<Rightarrow> ('e, 'err) fetch list) \<Rightarrow> 'err
     \<Rightarrow> ('c, 't, 'e, 'err, ('e, 'err) fetch list) paginator_sdk" where
  "scripted service exhausted =
     \<lparr>NewLookupEventsPaginator = service,
      HasMorePages = (\<lambda>pg. pg \<noteq> []),
      NextPage = (\<lambda>pg. case pg of [] \<Rightarrow> ((None, Some exhausted), [])
                        | r # rs \<Rightarrow> (r, rs))\<rparr>"

text \<open>A fetch that succeeds with the given records, and one that fails.\<close>

definition page :: "'e list \<Rightarrow> ('e, 'err) fetch" where
  "page evs = (Some \<lparr>Events = Some evs\<rparr>, None)"

definition failure :: "'err \<Rightarrow> ('e, 'err) fetch" where
  "failure e = (None, Some e)"

text \<open>The records a consumer has received in total.\<close>

definition records_received :: "('e, 'err) chan_op list \<Rightarrow> 'e list" where
  "records_received ops = concat (map (\<lambda>r. slice_elems (AWSEvent r)) (range_chan ops))"

section \<open>Event detail extraction (cmd/cloudtrail/event.go)\<close>

subsection \<open>The decoded structure\<close>

text \<open>
  \<open>RawEventDetails\<close> and its nested anonymous structures, each named after the field
  that holds it. The JSON keys are those of the tags: \<open>eventVersion\<close>,
  \<open>userIdentity\<close> (\<open>accountId\<close>, \<open>sessionContext\<close> with \<open>sessionIssuer\<close>:
  \<open>type\<close>, \<open>userName\<close>, \<open>arn\<close>), \<open>awsRegion\<close>, \<open>eventID\<close> and
  \<open>errorCode\<close>.
\<close>

record SessionIssuer =
  Type :: string
  UserName :: string
  Arn :: string

record SessionContext =
  SessionIssuer :: SessionIssuer

record UserIdentity =
  AccountId :: string
  SessionContext :: SessionContext

record RawEventDetails =
  EventVersion :: string
  UserIdentity :: UserIdentity
  EventRegion :: string
  EventId :: string
  ErrorCode :: string

text \<open>The zero value \<open>RawEventDetails{}\<close>: every string is empty.\<close>

definition RawEventDetails_zero :: RawEventDetails where
  "RawEventDetails_zero =
     \<lparr>EventVersion = [],
      UserIdentity = \<lparr>AccountId = [],
                       SessionContext = \<lparr>SessionIssuer = \<lparr>Type = [], UserName = [], Arn = []\<rparr>\<rparr>\<rparr>,
      EventRegion = [], EventId = [], ErrorCode = []\<rparr>"

subsection \<open>Runes\<close>

text \<open>
  A Go string is a sequence of bytes; the scanner and the decoder of the standard library
  read it rune by rune. \<open>DecodeRune\<close> is \<open>utf8.DecodeRune\<close>: the first rune of the
  bytes and its width, a byte that starts no well-formed encoding being read as U+FFFD of
  width 1. \<open>EncodeRune\<close> is \<open>utf8.EncodeRune\<close>.
\<close>

type_synonym rune = nat

definition RuneError :: rune where
  "RuneError = 0xFFFD"

definition DecodeRune :: "string \<Rightarrow> rune \<times> nat" where
  "DecodeRune s =
     (case s of
        [] \<Rightarrow> (RuneError, 0)
      | c0 # t \<Rightarrow>
          (let s0 = (of_char c0 :: nat) in
           if s0 < 0x80 then (s0, 1)
           else if s0 < 0xC2 \<or> 0xF4 < s0 then (RuneError, 1)
           else
             (let sz = (if s0 < 0xE0 then 2 else if s0 < 0xF0 then 3 else 4 :: nat);
                  lo = (if s0 = 0xE0 then 0xA0 else if s0 = 0xF0 then 0x90 else 0x80 :: nat);
                  hi = (if s0 = 0xED then 0x9F else if s0 = 0xF4 then 0x8F else 0xBF :: nat)
              in if length s < sz then (RuneError, 1)
                 else
                   (let s1 = (of_char (s ! 1) :: nat) in
                    if s1 < lo \<or> hi < s1 then (RuneError, 1)
                    else if sz \<le> 2 then ((s0 mod 32) * 64 + s1 mod 64, 2)
                    else
                      (let s2 = (of_char (s ! 2) :: nat) in
                       if s2 < 0x80 \<or> 0xBF < s2 then (RuneError, 1)
                       else if sz \<le> 3
                         then ((s0 mod 16) * 4096 + (s1 mod 64) * 64 + s2 mod 64, 3)
                       else
                         (let s3 = (of_char (s ! 3) :: nat) in
                          if s3 < 0x80 \<or> 0xBF < s3 then (RuneError, 1)
                          else ((s0 mod 8) * 262144 + (s1 mod 64) * 4096
                                  + (s2 mod 64) * 64 + s3 mod 64, 4)))))))"

fun runes :: "string \<Rightarrow> rune list" where
  "runes [] = []"
| "runes (c # cs) =
     (case DecodeRune (c # cs) of (r, width) \<Rightarrow> r # runes (drop (width - 1) cs))"

definition EncodeRune :: "rune \<Rightarrow> string" where
  "EncodeRune r =
     (if r \<le> 0x7F then [char_of r]
      else if r \<le> 0x7FF then [char_of (0xC0 + r div 64), char_of (0x80 + r mod 64)]
      else if 0x10FFFF < r \<or> (0xD800 \<le> r \<and> r \<le> 0xDFFF)
        then [char_of (0xEF :: nat), char_of (0xBF :: nat), char_of (0xBD :: nat)]
      else if r \<le> 0xFFFF
        then [char_of (0xE0 + r div 4096), char_of (0x80 + (r div 64) mod 64),
              char_of (0x80 + r mod 64)]
      else [char_of (0xF0 + r div 262144), char_of (0x80 + (r div 4096) mod 64),
            char_of (0x80 + (r div 64) mod 64), char_of (0x80 + r mod 64)])"


subsection \<open>Scanning the version: \<open>fmt.Sscanf(s, "%d.%d", &major, &minor)\<close>\<close>

text \<open>
  The standard library's scanner, for this format. Each \<open>%d\<close> skips white space (a
  newline is an error), takes an optional sign and a run of decimal digits, and converts
  them with \<open>strconv.ParseInt\<close> to a 64-bit integer; the dot must follow the first
  number at once. Text after the second number is not read.
\<close>

datatype scan_error =
    EOF
  | ErrUnexpectedEOF
  | UnexpectedNewline
  | ExpectedInteger
  | InputDoesNotMatchFormat
  | ErrSyntax
  | ErrRange

definition isSpace :: "rune \<Rightarrow> bool" where
  "isSpace r \<longleftrightarrow>
     (0x09 \<le> r \<and> r \<le> 0x0D) \<or> r = 0x20 \<or> r = 0x85 \<or> r = 0xA0 \<or> r = 0x1680
     \<or> (0x2000 \<le> r \<and> r \<le> 0x200A) \<or> r = 0x2028 \<or> r = 0x2029 \<or> r = 0x202F
     \<or> r = 0x205F \<or> r = 0x3000"

text \<open>
  \<open>SkipSpace\<close> with newlines not counted as space: a carriage return and any other
  white space is skipped, a newline is an error, anything else is left unread.
\<close>

fun SkipSpace :: "rune list \<Rightarrow> scan_error + rune list" where
  "SkipSpace [] = Inr []"
| "SkipSpace (r # rs) =
     (if r = 0x0D \<and> (case rs of [] \<Rightarrow> False | r' # _ \<Rightarrow> r' = 0x0A) then SkipSpace rs
      else if r = 0x0A then Inl UnexpectedNewline
      else if isSpace r then SkipSpace rs
      else Inr (r # rs))"

definition isDigit :: "rune \<Rightarrow> bool" where
  "isDigit r \<longleftrightarrow> 0x30 \<le> r \<and> r \<le> 0x39"

text \<open>
  \<open>strconv.ParseUint\<close> and \<open>strconv.ParseInt\<close> in base 10 with 64 bits: a value that
  does not fit is a range error.
\<close>

fun ParseUint :: "nat \<Rightarrow> rune list \<Rightarrow> scan_error + nat" where
  "ParseUint n [] = Inr n"
| "ParseUint n (c # cs) =
     (if \<not> isDigit c then Inl ErrSyntax
      else if n \<ge> 1844674407370955162 then Inl ErrRange
      else if n * 10 + (c - 0x30) > 0xFFFFFFFFFFFFFFFF then Inl ErrRange
      else ParseUint (n * 10 + (c - 0x30)) cs)"

definition ParseInt :: "rune list \<Rightarrow> scan_error + int" where
  "ParseInt tok =
     (case tok of
        [] \<Rightarrow> Inl ErrSyntax
      | c # cs \<Rightarrow>
          (let neg = (c = 0x2D);
               digits = (if c = 0x2B \<or> c = 0x2D then cs else tok)
           in if digits = [] then Inl ErrSyntax
              else
                (case ParseUint 0 digits of
                   Inl e \<Rightarrow> Inl e
                 | Inr un \<Rightarrow>
                     if \<not> neg \<and> un \<ge> 0x8000000000000000 then Inl ErrRange
                     else if neg \<and> un > 0x8000000000000000 then Inl ErrRange
                     else Inr (if neg then - int un else int un))))"

text \<open>
  \<open>scanInt\<close> for the verb \<open>%d\<close>: the number read and the input left. The end of the
  input where a number should start is \<open>EOF\<close>.
\<close>

definition scanInt :: "rune list \<Rightarrow> scan_error + (int \<times> rune list)" where
  "scanInt inp =
     (case SkipSpace inp of
        Inl e \<Rightarrow> Inl e
      | Inr inp1 \<Rightarrow>
          (case inp1 of
             [] \<Rightarrow> Inl EOF
           | c # cs \<Rightarrow>
               (let sign = (if c = 0x2B \<or> c = 0x2D then [c] else []);
                    inp2 = (if c = 0x2B \<or> c = 0x2D then cs else inp1);
                    digits = takeWhile isDigit inp2;
                    rest = dropWhile isDigit inp2
                in if inp2 = [] then Inl EOF
                   else if digits = [] then Inl ExpectedInteger
                   else
                     (case ParseInt (sign @ digits) of
                        Inl e \<Rightarrow> Inl e
                      | Inr i \<Rightarrow> Inr (i, rest)))))"

text \<open>
  The whole scan, with the two numbers it stored; any error leaves the caller with an
  error only.
\<close>

definition Sscanf_d_dot_d :: "string \<Rightarrow> scan_error + (int \<times> int)" where
  "Sscanf_d_dot_d str =
     (case SkipSpace (runes str) of
        Inl e \<Rightarrow> Inl e
      | Inr inp0 \<Rightarrow>
          (case scanInt inp0 of
             Inl e \<Rightarrow> Inl e
           | Inr (major, inp1) \<Rightarrow>
               (case inp1 of
                  [] \<Rightarrow> Inl ErrUnexpectedEOF
                | c # inp2 \<Rightarrow>
                    if c \<noteq> 0x2E then Inl InputDoesNotMatchFormat
                    else
                      (case SkipSpace inp2 of
                         Inl e \<Rightarrow> Inl e
                       | Inr inp3 \<Rightarrow>
                           (case scanInt inp3 of
                              Inl e \<Rightarrow> Inl e
                            | Inr (minor, inp4) \<Rightarrow> Inr (major, minor))))))"

subsection \<open>Decoding JSON: \<open>json.Unmarshal(data, &res)\<close>\<close>

text \<open>
  The standard library's decoder, for a target of type \<open>RawEventDetails\<close>. It first
  checks that the whole text is one JSON value, then stores the value into the structure
  field by field, following the \<open>json\<close> tags of the structure. The check is modelled in
  two passes over the text, both by structural recursion: a pass that cuts the bytes into
  tokens, and a pass that builds the value with an explicit stack.
\<close>

datatype json =
    JNull
  | JBool bool
  | JNumber string
  | JString string
  | JArray "json list"
  | JObject "(string \<times> json) list"

datatype json_error = SyntaxError | UnmarshalTypeError string

text \<open>
  The content of a string literal: bytes (written as they are, or through a
  one-character escape) and \<open>\u\<close> escapes, each a 16-bit value.
\<close>

datatype str_item = Byte char | Esc16 nat

fun bytes_of :: "str_item list \<Rightarrow> string" where
  "bytes_of (Byte c # items) = c # bytes_of items"
| "bytes_of items = []"

text \<open>
  \<open>unquote\<close>: a \<open>\u\<close> escape that is half of a surrogate pair is joined with the
  half that follows, or else replaced by U+FFFD; bytes that are not well-formed UTF-8
  are replaced by U+FFFD, one byte at a time.
\<close>

fun unquote :: "str_item list \<Rightarrow> string" where
  "unquote [] = []"
| "unquote (Esc16 rr # items) =
     (if 0xD800 \<le> rr \<and> rr < 0xE000 then
        (case items of
           Esc16 rr1 # items' \<Rightarrow>
             if rr < 0xDC00 \<and> 0xDC00 \<le> rr1 \<and> rr1 < 0xE000
             then EncodeRune ((rr - 0xD800) * 1024 + (rr1 - 0xDC00) + 0x10000) @ unquote items'
             else EncodeRune RuneError @ unquote items
         | _ \<Rightarrow> EncodeRune RuneError @ unquote items)
      else EncodeRune rr @ unquote items)"
| "unquote (Byte c # items) =
     (if (of_char c :: nat) < 0x80 then c # unquote items
      else (case DecodeRune (c # bytes_of items) of
              (rr, width) \<Rightarrow> EncodeRune rr @ unquote (drop (width - 1) items)))"

datatype token =
    LBrace | RBrace | LBracket | RBracket | Colon | Comma
  | TString string | TNumber string | TTrue | TFalse | TNull

datatype num_state = NumNeg | NumZero | NumInt | NumDot | NumFrac | NumExp | NumExpSign | NumExpDigits

datatype lex_state =
    Top
  | Str "str_item list"
  | StrEsc "str_item list"
  | StrU "str_item list" "nat list"
  | Num num_state string
  | Lit token string

definition is_digit :: "char \<Rightarrow> bool" where
  "is_digit c \<longleftrightarrow> (0x30 :: nat) \<le> of_char c \<and> (of_char c :: nat) \<le> 0x39"

definition hex_digit :: "char \<Rightarrow> nat option" where
  "hex_digit c =
     (let n = (of_char c :: nat) in
      if 0x30 \<le> n \<and> n \<le> 0x39 then Some (n - 0x30)
      else if 0x61 \<le> n \<and> n \<le> 0x66 then Some (n - 0x61 + 10)
      else if 0x41 \<le> n \<and> n \<le> 0x46 then Some (n - 0x41 + 10)
      else None)"

text \<open>A byte between two tokens: white space, punctuation, or the start of a token.\<close>

definition begin_token :: "char \<Rightarrow> (token list \<times> lex_state) option" where
  "begin_token c =
     (if c = CHR '' '' \<or> c = CHR 0x09 \<or> c = CHR 0x0D \<or> c = CHR 0x0A then Some ([], Top)
      else if c = CHR ''{'' then Some ([LBrace], Top)
      else if c = CHR ''}'' then Some ([RBrace], Top)
      else if c = CHR ''['' then Some ([LBracket], Top)
      else if c = CHR '']'' then Some ([RBracket], Top)
      else if c = CHR '':'' then Some ([Colon], Top)
      else if c = CHR '','' then Some ([Comma], Top)
      else if c = CHR 0x22 then Some ([], Str [])
      else if c = CHR ''-'' then Some ([], Num NumNeg [c])
      else if c = CHR ''0'' then Some ([], Num NumZero [c])
      else if is_digit c then Some ([], Num NumInt [c])
      else if c = CHR ''t'' then Some ([], Lit TTrue ''rue'')
      else if c = CHR ''f'' then Some ([], Lit TFalse ''alse'')
      else if c = CHR ''n'' then Some ([], Lit TNull ''ull'')
      else None)"

text \<open>The number grammar: the state after one more byte, if the byte continues the number.\<close>

definition num_step :: "num_state \<Rightarrow> char \<Rightarrow> num_state option" where
  "num_step ns c =
     (let e = (c = CHR ''e'' \<or> c = CHR ''E'') in
      case ns of
        NumNeg \<Rightarrow> if c = CHR ''0'' then Some NumZero else if is_digit c then Some NumInt else None
      | NumZero \<Rightarrow> if c = CHR ''.'' then Some NumDot else if e then Some NumExp else None
      | NumInt \<Rightarrow> if is_digit c then Some NumInt
               else if c = CHR ''.'' then Some NumDot else if e then Some NumExp else None
      | NumDot \<Rightarrow> if is_digit c then Some NumFrac else None
      | NumFrac \<Rightarrow> if is_digit c then Some NumFrac else if e then Some NumExp else None
      | NumExp \<Rightarrow> if c = CHR ''+'' \<or> c = CHR ''-'' then Some NumExpSign
               else if is_digit c then Some NumExpDigits else None
      | NumExpSign \<Rightarrow> if is_digit c then Some NumExpDigits else None
      | NumExpDigits \<Rightarrow> if is_digit c then Some NumExpDigits else None)"

definition num_complete :: "num_state \<Rightarrow> bool" where
  "num_complete ns \<longleftrightarrow> ns = NumZero \<or> ns = NumInt \<or> ns = NumFrac \<or> ns = NumExpDigits"

definition escape_char :: "char \<Rightarrow> char option" where
  "escape_char c =
     (if c = CHR ''b'' then Some (CHR 0x08)
      else if c = CHR ''f'' then Some (CHR 0x0C)
      else if c = CHR ''n'' then Some (CHR 0x0A)
      else if c = CHR ''r'' then Some (CHR 0x0D)
      else if c = CHR ''t'' then Some (CHR 0x09)
      else if c = CHR 0x5C \<or> c = CHR ''/'' \<or> c = CHR 0x22 then Some c
      else None)"

definition lex_step :: "lex_state \<Rightarrow> char \<Rightarrow> (token list \<times> lex_state) option" where
  "lex_step st c =
     (case st of
        Top \<Rightarrow> begin_token c
      | Str items \<Rightarrow>
          if c = CHR 0x22 then Some ([TString (unquote (rev items))], Top)
          else if c = CHR 0x5C then Some ([], StrEsc items)
          else if (of_char c :: nat) < 0x20 then None
          else Some ([], Str (Byte c # items))
      | StrEsc items \<Rightarrow>
          if c = CHR ''u'' then Some ([], StrU items [])
          else (case escape_char c of
                  None \<Rightarrow> None
                | Some b \<Rightarrow> Some ([], Str (Byte b # items)))
      | StrU items hs \<Rightarrow>
          (case hex_digit c of
             None \<Rightarrow> None
           | Some h \<Rightarrow>
               if length hs = 3
               then Some ([], Str (Esc16 (foldl (\<lambda>a d. a * 16 + d) 0 (hs @ [h])) # items))
               else Some ([], StrU items (hs @ [h])))
      | Num ns text \<Rightarrow>
          (case num_step ns c of
             Some ns' \<Rightarrow> Some ([], Num ns' (text @ [c]))
           | None \<Rightarrow>
               if num_complete ns
               then (case begin_token c of
                       None \<Rightarrow> None
                     | Some (ts, st') \<Rightarrow> Some (TNumber text # ts, st'))
               else None)
      | Lit tok rest \<Rightarrow>
          (case rest of
             [] \<Rightarrow> None
           | c' # rest' \<Rightarrow>
               if c \<noteq> c' then None
               else if rest' = [] then Some ([tok], Top)
               else Some ([], Lit tok rest')))"

definition lex_end :: "lex_state \<Rightarrow> token list option" where
  "lex_end st =
     (case st of
        Top \<Rightarrow> Some []
      | Num ns text \<Rightarrow> if num_complete ns then Some [TNumber text] else None
      | _ \<Rightarrow> None)"

fun lex :: "lex_state \<Rightarrow> string \<Rightarrow> token list option" where
  "lex st [] = lex_end st"
| "lex st (c # cs) =
     (case lex_step st c of
        None \<Rightarrow> None
      | Some (ts, st') \<Rightarrow>
          (case lex st' cs of
             None \<Rightarrow> None
           | Some ts' \<Rightarrow> Some (ts @ ts')))"

text \<open>
  Building the value. The stack holds the arrays and objects that are still open; the
  decoder refuses a nesting deeper than 10000.
\<close>

datatype frame =
    InArray "json list"
  | InObject "(string \<times> json) list"
  | InMember "(string \<times> json) list" string

datatype expect =
    Value
  | ValueOrClose
  | KeyOrClose
  | Key
  | ColonNext
  | CommaOrClose
  | EndOfText json

definition maxNestingDepth :: nat where
  "maxNestingDepth = 10000"

definition put_value :: "json \<Rightarrow> frame list \<Rightarrow> (expect \<times> frame list) option" where
  "put_value v stack =
     (case stack of
        [] \<Rightarrow> Some (EndOfText v, [])
      | InArray vs # stack' \<Rightarrow> Some (CommaOrClose, InArray (vs @ [v]) # stack')
      | InMember ms k # stack' \<Rightarrow> Some (CommaOrClose, InObject (ms @ [(k, v)]) # stack')
      | InObject ms # stack' \<Rightarrow> None)"

definition push_frame :: "frame \<Rightarrow> expect \<Rightarrow> frame list \<Rightarrow> (expect \<times> frame list) option" where
  "push_frame f e stack =
     (if length (f # stack) \<le> maxNestingDepth then Some (e, f # stack) else None)"

definition begin_value :: "token \<Rightarrow> frame list \<Rightarrow> (expect \<times> frame list) option" where
  "begin_value t stack =
     (case t of
        LBrace \<Rightarrow> push_frame (InObject []) KeyOrClose stack
      | LBracket \<Rightarrow> push_frame (InArray []) ValueOrClose stack
      | TString s \<Rightarrow> put_value (JString s) stack
      | TNumber n \<Rightarrow> put_value (JNumber n) stack
      | TTrue \<Rightarrow> put_value (JBool True) stack
      | TFalse \<Rightarrow> put_value (JBool False) stack
      | TNull \<Rightarrow> put_value JNull stack
      | _ \<Rightarrow> None)"

definition close_array :: "frame list \<Rightarrow> (expect \<times> frame list) option" where
  "close_array stack =
     (case stack of InArray vs # stack' \<Rightarrow> put_value (JArray vs) stack' | _ \<Rightarrow> None)"

definition close_object :: "frame list \<Rightarrow> (expect \<times> frame list) option" where
  "close_object stack =
     (case stack of InObject ms # stack' \<Rightarrow> put_value (JObject ms) stack' | _ \<Rightarrow> None)"

definition begin_member :: "token \<Rightarrow> frame list \<Rightarrow> (expect \<times> frame list) option" where
  "begin_member t stack =
     (case (t, stack) of
        (TString k, InObject ms # stack') \<Rightarrow> Some (ColonNext, InMember ms k # stack')
      | _ \<Rightarrow> None)"

definition parse_step :: "expect \<Rightarrow> frame list \<Rightarrow> token \<Rightarrow> (expect \<times> frame list) option" where
  "parse_step e stack t =
     (case e of
        Value \<Rightarrow> begin_value t stack
      | ValueOrClose \<Rightarrow> if t = RBracket then close_array stack else begin_value t stack
      | KeyOrClose \<Rightarrow> if t = RBrace then close_object stack else begin_member t stack
      | Key \<Rightarrow> begin_member t stack
      | ColonNext \<Rightarrow> if t = Colon then Some (Value, stack) else None
      | CommaOrClose \<Rightarrow>
          if t = Comma then
            (case stack of
               InArray vs # stack' \<Rightarrow> Some (Value, stack)
             | InObject ms # stack' \<Rightarrow> Some (Key, stack)
             | _ \<Rightarrow> None)
          else if t = RBracket then close_array stack
          else if t = RBrace then close_object stack
          else None
      | EndOfText v \<Rightarrow> None)"

fun parse :: "expect \<Rightarrow> frame list \<Rightarrow> token list \<Rightarrow> json option" where
  "parse e stack [] = (case e of EndOfText v \<Rightarrow> Some v | _ \<Rightarrow> None)"
| "parse e stack (t # ts) =
     (case parse_step e stack t of
        None \<Rightarrow> None
      | Some (e', stack') \<Rightarrow> parse e' stack' ts)"

definition json_value :: "string \<Rightarrow> json option" where
  "json_value data =
     (case lex Top data of
        None \<Rightarrow> None
      | Some ts \<Rightarrow> parse Value [] ts)"

text \<open>
  Storing into the structure. A key selects the field whose tag it equals up to case
  folding; a key that selects no field is skipped with its value. \<open>null\<close> leaves a field
  as it is. A value of the wrong kind leaves the field as it is and is recorded as an
  error, the first of which is returned when the decoding is over.
\<close>

definition foldRune :: "rune \<Rightarrow> rune" where
  "foldRune r =
     (if 0x61 \<le> r \<and> r \<le> 0x7A then r - 0x20
      else if r = 0x17F then 0x53
      else if r = 0x212A then 0x4B
      else r)"

definition EqualFold :: "string \<Rightarrow> string \<Rightarrow> bool" where
  "EqualFold key name \<longleftrightarrow> map foldRune (runes key) = map foldRune (runes name)"

definition kind_of :: "json \<Rightarrow> string" where
  "kind_of j =
     (case j of
        JNull \<Rightarrow> ''null''
      | JBool b \<Rightarrow> ''bool''
      | JNumber n \<Rightarrow> ''number''
      | JString s \<Rightarrow> ''string''
      | JArray vs \<Rightarrow> ''array''
      | JObject ms \<Rightarrow> ''object'')"

definition saveError :: "json_error option \<Rightarrow> json_error option \<Rightarrow> json_error option" where
  "saveError saved err = (case saved of None \<Rightarrow> err | Some e \<Rightarrow> Some e)"

definition store_string :: "json \<Rightarrow> string \<Rightarrow> string \<times> json_error option" where
  "store_string j old =
     (case j of
        JString s \<Rightarrow> (s, None)
      | JNull \<Rightarrow> (old, None)
      | _ \<Rightarrow> (old, Some (UnmarshalTypeError (kind_of j))))"

fun store_members ::
  "(string \<Rightarrow> json \<Rightarrow> 'a \<Rightarrow> 'a \<times> json_error option) \<Rightarrow> (string \<times> json) list \<Rightarrow> 'a
     \<Rightarrow> 'a \<times> json_error option" where
  "store_members field [] v = (v, None)"
| "store_members field ((k, j) # ms) v =
     (case field k j v of
        (v', err) \<Rightarrow>
          (case store_members field ms v' of
             (v'', err') \<Rightarrow> (v'', saveError err err')))"

definition store_struct ::
  "(string \<Rightarrow> json \<Rightarrow> 'a \<Rightarrow> 'a \<times> json_error option) \<Rightarrow> json \<Rightarrow> 'a
     \<Rightarrow> 'a \<times> json_error option" where
  "store_struct field j old =
     (case j of
        JObject ms \<Rightarrow> store_members field ms old
      | JNull \<Rightarrow> (old, None)
      | _ \<Rightarrow> (old, Some (UnmarshalTypeError (kind_of j))))"

definition SessionIssuer_field ::
  "string \<Rightarrow> json \<Rightarrow> SessionIssuer \<Rightarrow> SessionIssuer \<times> json_error option" where
  "SessionIssuer_field key j v =
     (if EqualFold key ''type''
      then (case store_string j (Type v) of (s, err) \<Rightarrow> (v\<lparr>Type := s\<rparr>, err))
      else if EqualFold key ''userName''
      then (case store_string j (UserName v) of (s, err) \<Rightarrow> (v\<lparr>UserName := s\<rparr>, err))
      else if EqualFold key ''arn''
      then (case store_string j (Arn v) of (s, err) \<Rightarrow> (v\<lparr>Arn := s\<rparr>, err))
      else (v, None))"

definition SessionContext_field ::
  "string \<Rightarrow> json \<Rightarrow> SessionContext \<Rightarrow> SessionContext \<times> json_error option" where
  "SessionContext_field key j v =
     (if EqualFold key ''sessionIssuer''
      then (case store_struct SessionIssuer_field j (SessionIssuer v) of
              (s, err) \<Rightarrow> (v\<lparr>SessionIssuer := s\<rparr>, err))
      else (v, None))"

definition UserIdentity_field ::
  "string \<Rightarrow> json \<Rightarrow> UserIdentity \<Rightarrow> UserIdentity \<times> json_error option" where
  "UserIdentity_field key j v =
     (if EqualFold key ''accountId''
      then (case store_string j (AccountId v) of (s, err) \<Rightarrow> (v\<lparr>AccountId := s\<rparr>, err))
      else if EqualFold key ''sessionContext''
      then (case store_struct SessionContext_field j (SessionContext v) of
              (s, err) \<Rightarrow> (v\<lparr>SessionContext := s\<rparr>, err))
      else (v, None))"

definition RawEventDetails_field ::
  "string \<Rightarrow> json \<Rightarrow> RawEventDetails \<Rightarrow> RawEventDetails \<times> json_error option" where
  "RawEventDetails_field key j v =
     (if EqualFold key ''eventVersion''
      then (case store_string j (EventVersion v) of (s, err) \<Rightarrow> (v\<lparr>EventVersion := s\<rparr>, err))
      else if EqualFold key ''userIdentity''
      then (case store_struct UserIdentity_field j (UserIdentity v) of
              (s, err) \<Rightarrow> (v\<lparr>UserIdentity := s\<rparr>, err))
      else if EqualFold key ''awsRegion''
      then (case store_string j (EventRegion v) of (s, err) \<Rightarrow> (v\<lparr>EventRegion := s\<rparr>, err))
      else if EqualFold key ''eventID''
      then (case store_string j (EventId v) of (s, err) \<Rightarrow> (v\<lparr>EventId := s\<rparr>, err))
      else if EqualFold key ''errorCode''
      then (case store_string j (ErrorCode v) of (s, err) \<Rightarrow> (v\<lparr>ErrorCode := s\<rparr>, err))
      else (v, None))"

definition json_Unmarshal :: "string \<Rightarrow> RawEventDetails \<Rightarrow> RawEventDetails \<times> json_error option" where
  "json_Unmarshal data res =
     (case json_value data of
        None \<Rightarrow> (res, Some SyntaxError)
      | Some j \<Rightarrow> store_struct RawEventDetails_field j res)"

subsection \<open>\<open>ExtractUserDetails\<close>\<close>

datatype error =
    InvalidInput
  | DecodeError json_error
  | VersionParseError scan_error
  | UnsupportedVersion string int int

text \<open>The format string of each error (lines 105, 110, 118 and 121).\<close>

fun Errorf_format :: "error \<Rightarrow> string" where
  "Errorf_format InvalidInput = ''cannot parse a nil input''"
| "Errorf_format (DecodeError err) = ''could not marshal event.CloudTrailEvent: %w''"
| "Errorf_format (VersionParseError err) = ''failed to parse CloudTrail event version: %w''"
| "Errorf_format (UnsupportedVersion got major minor) =
     ''unexpected event version (got %s, expected compatibility with %d.%d)''"

definition supportedEventVersionMajor :: int where
  "supportedEventVersionMajor = 1"

definition minSupportedEventVersionMinor :: int where
  "minSupportedEventVersionMinor = 8"

text \<open>
  The function returns a pointer and an error; \<open>None\<close> in the first component would be
  the nil pointer, \<open>None\<close> in the second is the nil error.
\<close>

definition ExtractUserDetails :: "string option \<Rightarrow> RawEventDetails option \<times> error option" where
  "ExtractUserDetails cloudTrailEvent =
     (case cloudTrailEvent of
        None \<Rightarrow> (Some RawEventDetails_zero, Some InvalidInput)
      | Some event \<Rightarrow>
          if event = [] then (Some RawEventDetails_zero, Some InvalidInput)
          else
            (case json_Unmarshal event RawEventDetails_zero of
               (res, Some err) \<Rightarrow> (Some RawEventDetails_zero, Some (DecodeError err))
             | (res, None) \<Rightarrow>
                 (case Sscanf_d_dot_d (EventVersion res) of
                    Inl err \<Rightarrow> (Some RawEventDetails_zero, Some (VersionParseError err))
                  | Inr (responseMajor, responseMinor) \<Rightarrow>
                      if responseMajor \<noteq> supportedEventVersionMajor
                         \<or> responseMinor < minSupportedEventVersionMinor
                      then (Some RawEventDetails_zero,
                            Some (UnsupportedVersion (EventVersion res)
                                    supportedEventVersionMajor minSupportedEventVersionMinor))
                      else (Some res, None))))"

subsection \<open>The form of a version string\<close>

text \<open>
  The form \<open><integer>.<integer>\<close> read strictly: an optionally signed run of decimal
  digits, a dot, another such run, and nothing else.
\<close>

definition integer_literal :: "string \<Rightarrow> bool" where
  "integer_literal s \<longleftrightarrow>
     (case s of
        [] \<Rightarrow> False
      | c # cs \<Rightarrow>
          (let ds = (if c = CHR ''+'' \<or> c = CHR ''-'' then cs else s)
           in ds \<noteq> [] \<and> list_all is_digit ds))"

definition integer_dot_integer :: "string \<Rightarrow> bool" where
  "integer_dot_integer s \<longleftrightarrow>
     integer_literal (takeWhile (\<lambda>c. c \<noteq> CHR ''.'') s)
     \<and> (case dropWhile (\<lambda>c. c \<noteq> CHR ''.'') s of
          [] \<Rightarrow> False
        | dot # t \<Rightarrow> integer_literal t)"

text \<open>The number that a run of decimal digits denotes.\<close>

definition decimal_value :: "string \<Rightarrow> nat" where
  "decimal_value ds = foldl (\<lambda>n c. n * 10 + (of_char c - 0x30)) 0 ds"

text \<open>
  The form read as a prefix: white space other than a newline, an optionally signed run
  of decimal digits, a dot, white space again, a second optionally signed run of digits,
  and then any text.
\<close>

definition skip_blanks :: "rune list \<Rightarrow> rune list" where
  "skip_blanks = dropWhile (\<lambda>r. isSpace r \<and> r \<noteq> 0x0A)"

definition integer_prefix :: "rune list \<Rightarrow> rune list option" where
  "integer_prefix rs =
     (let ds = (case rs of [] \<Rightarrow> [] | c # cs \<Rightarrow> if c = 0x2B \<or> c = 0x2D then cs else rs)
      in if takeWhile isDigit ds = [] then None else Some (dropWhile isDigit ds))"

definition begins_with_version :: "string \<Rightarrow> bool" where
  "begins_with_version s \<longleftrightarrow>
     (case integer_prefix (skip_blanks (runes s)) of
        None \<Rightarrow> False
      | Some rest \<Rightarrow>
          (case rest of
             [] \<Rightarrow> False
           | c # rest' \<Rightarrow> c = 0x2E \<and> integer_prefix (skip_blanks rest') \<noteq> None))"

text \<open>The payload of the end-to-end scenario.\<close>

definition scenario_payload :: string where
  \<open>scenario_payload =
     ''{"eventVersion":"1.9","userIdentity":{"accountId":"123456789012"},"awsRegion":"us-east-1","eventID":"evt-1","errorCode":""}''\<close>

fun is_UnsupportedVersion :: "error option \<Rightarrow> bool" where
  "is_UnsupportedVersion (Some (UnsupportedVersion got major minor)) = True"
| "is_UnsupportedVersion err = False"

fun is_VersionParseError :: "error option \<Rightarrow> bool" where
  "is_VersionParseError (Some (VersionParseError err)) = True"
| "is_VersionParseError err = False"

section \<open>Properties of the paginator\<close>

lemma scripted_sel:
  "NewLookupEventsPaginator (scripted service ex) = service"
  "HasMorePages (scripted service ex) pg = (pg \<noteq> [])"
  "NextPage (scripted service ex) (r # rs) = (r, rs)"
  by (simp_all add: scripted_def)

lemma loop_exhausted:
  "for_HasMorePages (scripted service ex) [] al sent = Some (Returned, [], al, sent)"
  by (subst for_HasMorePages.simps) (simp add: scripted_sel)

lemma loop_nil_output:
  "for_HasMorePages (scripted service ex) ((None, err) # rs) al sent
     = Some (NilPointerDereference, rs, al, sent @ send_error err)"
  by (subst for_HasMorePages.simps) (simp add: scripted_sel)

lemma loop_output:
  "for_HasMorePages (scripted service ex) ((Some out, err) # rs) al sent
     = for_HasMorePages (scripted service ex) rs (al @ slice_elems (Events out))
         (sent @ send_error err @ [Send \<lparr>AWSEvent = Events out, errors = None\<rparr>])"
  by (subst for_HasMorePages.simps) (simp add: scripted_sel)

text \<open>Against a scripted collaborator the loop always ends.\<close>

lemma loop_scripted_returns:
  "\<exists>r. for_HasMorePages (scripted service ex) script al sent = Some r"
proof (induction script arbitrary: al sent)
  case Nil
  show ?case by (simp add: loop_exhausted)
next
  case (Cons f script)
  obtain lo err where f: "f = (lo, err)" by (cases f)
  show ?case
  proof (cases lo)
    case None
    with f show ?thesis by (simp add: loop_nil_output)
  next
    case (Some out)
    with f Cons.IH show ?thesis by (simp add: loop_output)
  qed
qed

lemma GetEvents_scripted_returns:
  "\<exists>r. GetEvents (scripted service ex) a s missing = Some r"
proof -
  from loop_scripted_returns [of service ex "service (client a) (GetEvents_input a missing)" "[]" "[]"]
  obtain r where
    "for_HasMorePages (scripted service ex) (service (client a) (GetEvents_input a missing)) [] []
       = Some r" ..
  then show ?thesis
    by (cases r) (simp add: GetEvents_def goroutine_def scripted_sel)
qed

text \<open>When every fetch succeeds, each page is sent as it came, with a nil error.\<close>

lemma loop_pages:
  "for_HasMorePages (scripted service ex) (map page ps) al sent
     = Some (Returned, [], al @ concat ps,
             sent @ map (\<lambda>p. Send \<lparr>AWSEvent = Some p, errors = None\<rparr>) ps)"
proof (induction ps arbitrary: al sent)
  case Nil
  show ?case by (simp add: loop_exhausted)
next
  case (Cons p ps)
  show ?case
    by (simp add: page_def loop_output send_error_def slice_elems_def Cons.IH [unfolded page_def])
qed

lemma GetEvents_pages:
  assumes "service (client a) (GetEvents_input a missing) = map page ps"
  shows "GetEvents (scripted service ex) a s missing
           = Some \<lparr>pageChan = map (\<lambda>p. Send \<lparr>AWSEvent = Some p, errors = None\<rparr>) ps @ [Close],
                   outcome = Returned, paginator = []\<rparr>"
  using assms by (simp add: GetEvents_def goroutine_def scripted_sel loop_pages)

lemma range_chan_sends: "range_chan (map Send rs @ [Close]) = rs"
  by (induction rs) simp_all

lemma range_chan_pages:
  "range_chan (map (\<lambda>p. Send \<lparr>AWSEvent = Some p, errors = None\<rparr>) ps @ [Close])
     = map (\<lambda>p. \<lparr>AWSEvent = Some p, errors = None\<rparr>) ps"
  using range_chan_sends [of "map (\<lambda>p. \<lparr>AWSEvent = Some p, errors = None\<rparr>) ps"]
  by (simp add: comp_def)

subsection \<open>Claims about the paginator\<close>

text \<open>
  C1. The second of three page fetches fails, the SDK returning a nil output with the
  error. The consumer receives page 1 and then the result that carries the error with a nil
  record sequence. The loop body then reads \<open>lookupOutput.Events\<close> through the nil
  output: the goroutine panics, the deferred close runs, and page 3 is never fetched nor
  delivered; it is still held by the paginator.
\<close>

theorem GetEvents_second_fetch_fails:
  "GetEvents
     (scripted (\<lambda>c q. [page [''e1'', ''e2''], failure ''throttled'', page [''e3'']])
        ''no more pages available'')
     \<lparr>client = (), writeOnly = False\<rparr> ''cluster''
     \<lparr>Period.StartTime = (0::nat), Period.EndTime = 10\<rparr>
   = Some \<lparr>pageChan = [Send \<lparr>AWSEvent = Some [''e1'', ''e2''], errors = None\<rparr>,
                        Send \<lparr>AWSEvent = None, errors = Some ''throttled''\<rparr>,
                        Close],
           outcome = NilPointerDereference,
           paginator = [page [''e3'']]\<rparr>"
  by (simp add: GetEvents_def goroutine_def scripted_sel page_def failure_def
        loop_output loop_nil_output send_error_def slice_elems_def)

text \<open>
  C5. A collaborator that answers with three pages of sizes 2, 2 and 1 and no error: the
  producer returns, having sent exactly three results in page order, each with the page's
  records and a nil error, and then closed the channel; a consumer ranging over the channel
  receives these three results, five records in all.
\<close>

theorem GetEvents_three_pages:
  fixes ex :: 'err
  assumes "length p1 = 2" and "length p2 = 2" and "length p3 = 1"
    and "service (client a) (GetEvents_input a missing) = [page p1, page p2, page p3]"
  shows "GetEvents (scripted service ex) a s missing
           = Some \<lparr>pageChan = [Send \<lparr>AWSEvent = Some p1, errors = None\<rparr>,
                               Send \<lparr>AWSEvent = Some p2, errors = None\<rparr>,
                               Send \<lparr>AWSEvent = Some p3, errors = None\<rparr>,
                               Close],
                   outcome = Returned, paginator = []\<rparr>
         \<and> range_chan [Send \<lparr>AWSEvent = Some p1, errors = None\<rparr>,
                        Send \<lparr>AWSEvent = Some p2, errors = None\<rparr>,
                        Send \<lparr>AWSEvent = Some p3, errors = (None :: 'err option)\<rparr>,
                        Close]
             = [\<lparr>AWSEvent = Some p1, errors = None\<rparr>,
                \<lparr>AWSEvent = Some p2, errors = None\<rparr>,
                \<lparr>AWSEvent = Some p3, errors = None\<rparr>]
         \<and> length (records_received
                      [Send \<lparr>AWSEvent = Some p1, errors = None\<rparr>,
                       Send \<lparr>AWSEvent = Some p2, errors = None\<rparr>,
                       Send \<lparr>AWSEvent = Some p3, errors = (None :: 'err option)\<rparr>,
                       Close]) = 5"
proof -
  from assms(4) have "service (client a) (GetEvents_input a missing) = map page [p1, p2, p3]"
    by simp
  then have "GetEvents (scripted service ex) a s missing
      = Some \<lparr>pageChan = map (\<lambda>p. Send \<lparr>AWSEvent = Some p, errors = None\<rparr>) [p1, p2, p3]
                          @ [Close],
              outcome = Returned, paginator = []\<rparr>"
    by (rule GetEvents_pages)
  then show ?thesis using assms(1-3)
    by (simp add: records_received_def slice_elems_def)
qed

theorem GetEvents_three_pages_witness:
  "GetEvents (scripted (\<lambda>c q. [page [''e1'', ''e2''], page [''e3'', ''e4''], page [''e5'']])
               ''no more pages available'')
     \<lparr>client = (), writeOnly = False\<rparr> ''cluster''
     \<lparr>Period.StartTime = (0::nat), Period.EndTime = 10\<rparr>
   = Some \<lparr>pageChan = [Send \<lparr>AWSEvent = Some [''e1'', ''e2''], errors = None\<rparr>,
                        Send \<lparr>AWSEvent = Some [''e3'', ''e4''], errors = None\<rparr>,
                        Send \<lparr>AWSEvent = Some [''e5''], errors = None\<rparr>,
                        Close],
           outcome = Returned, paginator = []\<rparr>
   \<and> length (records_received
                [Send \<lparr>AWSEvent = Some [''e1'', ''e2''], errors = None\<rparr>,
                 Send \<lparr>AWSEvent = Some [''e3'', ''e4''], errors = None\<rparr>,
                 Send \<lparr>AWSEvent = Some [''e5''], errors = (None :: string option)\<rparr>,
                 Close]) = 5"
  using GetEvents_three_pages [where ?p1.0 = "[''e1'', ''e2'']" and ?p2.0 = "[''e3'', ''e4'']"
          and ?p3.0 = "[''e5'']"
          and service = "\<lambda>c q. [page [''e1'', ''e2''], page [''e3'', ''e4''], page [''e5'']]"
          and a = "\<lparr>client = (), writeOnly = False\<rparr>"
          and missing = "\<lparr>Period.StartTime = (0::nat), Period.EndTime = 10\<rparr>"
          and ex = "''no more pages available''" and s = "''cluster''"]
  by simp

text \<open>
  C7. The query \<open>GetEvents\<close> hands to the paginator carries the two time stamps of the
  period and, with the write-only flag, exactly one lookup attribute, key \<open>ReadOnly\<close>
  with value \<open>false\<close>; without the flag it carries none. The remote service is asked
  exactly this query, and the pages it answers with reach the consumer as they are: no record
  is removed on the way.
\<close>

theorem GetEvents_query:
  "GetEvents_input a missing
     = \<lparr>StartTime = Some (Period.StartTime missing), EndTime = Some (Period.EndTime missing),
        LookupAttributes =
          (if writeOnly a
           then Some [\<lparr>AttributeKey = ''ReadOnly'', AttributeValue = Some ''false''\<rparr>]
           else None)\<rparr>
   \<and> GetEvents (scripted service ex) a s missing
        = goroutine (scripted service ex) (service (client a) (GetEvents_input a missing))
   \<and> (service (client a) (GetEvents_input a missing) = map page ps \<longrightarrow>
        (\<exists>r. GetEvents (scripted service ex) a s missing = Some r
           \<and> range_chan (pageChan r) = map (\<lambda>p. \<lparr>AWSEvent = Some p, errors = None\<rparr>) ps))"
  by (simp add: GetEvents_input_def GetEvents_def scripted_sel range_chan_pages
        goroutine_def loop_pages)

theorem GetEvents_query_witness:
  "GetEvents_input \<lparr>client = (), writeOnly = True\<rparr>
       \<lparr>Period.StartTime = (0::nat), Period.EndTime = 10\<rparr>
     = \<lparr>StartTime = Some 0, EndTime = Some 10,
        LookupAttributes = Some [\<lparr>AttributeKey = ''ReadOnly'', AttributeValue = Some ''false''\<rparr>]\<rparr>
   \<and> (\<exists>r. GetEvents
             (scripted (\<lambda>c q. if LookupAttributes q = None
                               then map page [[''r1'', ''w1''], [''w2'']]
                               else map page [[''w1''], [''w2'']])
                ''no more pages available'')
             \<lparr>client = (), writeOnly = True\<rparr> ''cluster''
             \<lparr>Period.StartTime = (0::nat), Period.EndTime = 10\<rparr> = Some r
          \<and> range_chan (pageChan r)
              = [\<lparr>AWSEvent = Some [''w1''], errors = None\<rparr>,
                 \<lparr>AWSEvent = Some [''w2''], errors = None\<rparr>])"
proof -
  note q = GetEvents_query [where a = "\<lparr>client = (), writeOnly = True\<rparr>"
          and missing = "\<lparr>Period.StartTime = (0::nat), Period.EndTime = 10\<rparr>"
          and service = "\<lambda>c q. if LookupAttributes q = None
                               then map page [[''r1'', ''w1''], [''w2'']]
                               else map page [[''w1''], [''w2'']]"
          and ps = "[[''w1''], [''w2'']]"
          and ex = "''no more pages available''" and s = "''cluster''"]
  have i: "GetEvents_input \<lparr>client = (), writeOnly = True\<rparr>
       \<lparr>Period.StartTime = (0::nat), Period.EndTime = 10\<rparr>
     = \<lparr>StartTime = Some 0, EndTime = Some 10,
        LookupAttributes = Some [\<lparr>AttributeKey = ''ReadOnly'', AttributeValue = Some ''false''\<rparr>]\<rparr>"
    using q [THEN conjunct1] by simp
  show ?thesis
    using q [THEN conjunct2, THEN conjunct2] by (simp add: i)
qed

text \<open>
  C8. The first of two fetches fails with a nil output. The producer sends the error
  result, panics on the nil output and closes the channel through the deferred call, while
  the paginator still has a page: the channel is closed although pages remain.
\<close>

theorem GetEvents_closed_while_pages_remain:
  "GetEvents
     (scripted (\<lambda>c q. [failure ''throttled'', page [''e1'']]) ''no more pages available'')
     \<lparr>client = (), writeOnly = False\<rparr> ''cluster''
     \<lparr>Period.StartTime = (0::nat), Period.EndTime = 10\<rparr>
   = Some \<lparr>pageChan = [Send \<lparr>AWSEvent = None, errors = Some ''throttled''\<rparr>, Close],
           outcome = NilPointerDereference,
           paginator = [page [''e1'']]\<rparr>
   \<and> HasMorePages
        (scripted (\<lambda>(c::unit) (q::nat LookupEventsInput). [failure ''throttled'', page [''e1'']])
           ''no more pages available'')
        [page [''e1'']]"
  by (simp add: GetEvents_def goroutine_def scripted_sel page_def failure_def
        loop_output loop_nil_output send_error_def slice_elems_def)

text \<open>
  C10. The first argument of \<open>GetEvents\<close> is never read: with the receiver, the period
  and the collaborator fixed, any two values of it give the same run.
\<close>

theorem GetEvents_first_argument_unused:
  "GetEvents sdk a s1 missing = GetEvents sdk a s2 missing"
  by (simp add: GetEvents_def)

section \<open>Properties of the extractor\<close>

subsection \<open>Evaluation\<close>

text \<open>The equations that evaluate the scanner and the decoder on a given text.\<close>

lemmas scan_eval =
  Sscanf_d_dot_d_def scanInt_def ParseInt_def DecodeRune_def isSpace_def isDigit_def

lemmas json_eval =
  json_Unmarshal_def json_value_def lex_step_def lex_end_def begin_token_def num_step_def
  num_complete_def escape_char_def hex_digit_def is_digit_def
  parse_step_def begin_value_def begin_member_def close_array_def close_object_def
  put_value_def push_frame_def maxNestingDepth_def
  store_struct_def store_string_def saveError_def kind_of_def
  RawEventDetails_field_def UserIdentity_field_def SessionContext_field_def
  SessionIssuer_field_def EqualFold_def foldRune_def DecodeRune_def EncodeRune_def RuneError_def

subsection \<open>What the scanner accepts\<close>

text \<open>A scan that succeeds has read a string that begins like a version.\<close>

lemma SkipSpace_Inr: "SkipSpace rs = Inr rs' \<Longrightarrow> rs' = skip_blanks rs"
proof (induction rs)
  case Nil
  then show ?case by (simp add: skip_blanks_def)
next
  case (Cons r rs)
  show ?case
  proof (cases "isSpace r \<and> r \<noteq> 0x0A")
    case True
    with Cons.prems have "SkipSpace rs = Inr rs'"
      by (simp split: if_splits)
    with Cons.IH True show ?thesis by (simp add: skip_blanks_def)
  next
    case False
    have sp: "isSpace (0x0D :: nat)" "isSpace (0x0A :: nat)"
      by (simp_all add: isSpace_def)
    from False Cons.prems sp have "\<not> isSpace r" and "rs' = r # rs"
      by (auto split: if_splits)
    then show ?thesis by (simp add: skip_blanks_def)
  qed
qed

lemma skip_blanks_idem: "skip_blanks (skip_blanks rs) = skip_blanks rs"
  by (simp add: skip_blanks_def)

lemma scanInt_form:
  assumes "scanInt inp = Inr (i, rest)"
  shows "integer_prefix (skip_blanks inp) = Some rest"
proof -
  from assms obtain inp1 where s: "SkipSpace inp = Inr inp1"
    by (auto simp: scanInt_def split: sum.splits)
  then have inp1: "inp1 = skip_blanks inp" by (rule SkipSpace_Inr)
  from assms s obtain c cs where c: "inp1 = c # cs"
    by (cases inp1) (auto simp: scanInt_def)
  define inp2 where "inp2 = (if c = 0x2B \<or> c = 0x2D then cs else inp1)"
  from assms s c have ne: "takeWhile isDigit inp2 \<noteq> []"
    and r: "rest = dropWhile isDigit inp2"
    by (auto simp: scanInt_def Let_def inp2_def split: sum.splits if_splits)
  have "integer_prefix inp1
          = (if takeWhile isDigit inp2 = [] then None else Some (dropWhile isDigit inp2))"
    using c by (auto simp: integer_prefix_def inp2_def)
  then have "integer_prefix inp1 = Some rest"
    using ne r by simp
  with inp1 show ?thesis by simp
qed

lemma Sscanf_form:
  assumes "Sscanf_d_dot_d s = Inr (major, minor)"
  shows "begins_with_version s"
proof -
  from assms obtain inp0 where s0: "SkipSpace (runes s) = Inr inp0"
    by (auto simp: Sscanf_d_dot_d_def split: sum.splits)
  then have inp0: "inp0 = skip_blanks (runes s)" by (rule SkipSpace_Inr)
  from assms s0 obtain inp1 where i1: "scanInt inp0 = Inr (major, inp1)"
    by (auto simp: Sscanf_d_dot_d_def split: sum.splits list.splits if_splits)
  from assms s0 i1 obtain inp2 where c: "inp1 = 0x2E # inp2"
    by (auto simp: Sscanf_d_dot_d_def split: sum.splits list.splits if_splits)
  from assms s0 i1 c obtain inp3 where s3: "SkipSpace inp2 = Inr inp3"
    by (auto simp: Sscanf_d_dot_d_def split: sum.splits list.splits if_splits)
  then have inp3: "inp3 = skip_blanks inp2" by (rule SkipSpace_Inr)
  from assms s0 i1 c s3 obtain inp4 where i4: "scanInt inp3 = Inr (minor, inp4)"
    by (auto simp: Sscanf_d_dot_d_def split: sum.splits list.splits if_splits)
  have a: "integer_prefix (skip_blanks (runes s)) = Some inp1"
    using scanInt_form [OF i1] inp0 by (simp add: skip_blanks_idem)
  have b: "integer_prefix (skip_blanks inp2) = Some inp4"
    using scanInt_form [OF i4] inp3 by (simp add: skip_blanks_idem)
  show ?thesis
    using a b c by (simp add: begins_with_version_def)
qed


subsection \<open>What the scanner reads\<close>

text \<open>
  On two runs of decimal digits joined by a dot, each denoting a number below \<open>2^63\<close>,
  the scan succeeds and stores the two numbers.
\<close>

lemma DecodeRune_ascii: "(of_char c :: nat) < 0x80 \<Longrightarrow> DecodeRune (c # cs) = (of_char c, 1)"
  by (simp add: DecodeRune_def)

lemma runes_ascii: "list_all (\<lambda>c. (of_char c :: nat) < 0x80) s \<Longrightarrow> runes s = map of_char s"
  by (induction s) (simp_all add: DecodeRune_ascii)

lemma is_digit_ascii: "is_digit c \<Longrightarrow> (of_char c :: nat) < 0x80"
  by (simp add: is_digit_def)

lemma isDigit_of_char: "isDigit (of_char c) = is_digit c"
  by (simp add: isDigit_def is_digit_def)

lemma SkipSpace_digit: "isDigit r \<Longrightarrow> SkipSpace (r # rs) = Inr (r # rs)"
  by (auto simp: isDigit_def isSpace_def)

lemma digits_value_ge: "n \<le> foldl (\<lambda>a r. a * 10 + (r - 0x30)) (n :: nat) ds"
proof (induction ds arbitrary: n)
  case Nil
  show ?case by simp
next
  case (Cons d ds)
  have "n \<le> n * 10 + (d - 0x30)" by simp
  also have "\<dots> \<le> foldl (\<lambda>a r. a * 10 + (r - 0x30)) (n * 10 + (d - 0x30)) ds"
    by (rule Cons.IH)
  finally show ?case by simp
qed

lemma ParseUint_value:
  assumes "list_all isDigit ds"
    and "foldl (\<lambda>a r. a * 10 + (r - 0x30)) n ds \<le> 0xFFFFFFFFFFFFFFFF"
  shows "ParseUint n ds = Inr (foldl (\<lambda>a r. a * 10 + (r - 0x30)) n ds)"
  using assms
proof (induction ds arbitrary: n)
  case Nil
  show ?case by simp
next
  case (Cons d ds)
  have "n * 10 + (d - 0x30) \<le> foldl (\<lambda>a r. a * 10 + (r - 0x30)) (n * 10 + (d - 0x30)) ds"
    by (rule digits_value_ge)
  with Cons.prems(2) have b: "n * 10 + (d - 0x30) \<le> 0xFFFFFFFFFFFFFFFF" by simp
  then have c: "n < 1844674407370955162" by simp
  from Cons.prems Cons.IH [of "n * 10 + (d - 0x30)"] b c show ?case by simp
qed

lemma ParseInt_digits:
  assumes "ds \<noteq> []" and "list_all isDigit ds"
    and "foldl (\<lambda>a r. a * 10 + (r - 0x30)) 0 ds < 0x8000000000000000"
  shows "ParseInt ds = Inr (int (foldl (\<lambda>a r. a * 10 + (r - 0x30)) 0 ds))"
proof -
  obtain d ds' where ds: "ds = d # ds'" using assms(1) by (cases ds) auto
  with assms(2) have d: "d \<noteq> 0x2B" "d \<noteq> 0x2D" by (auto simp: isDigit_def)
  have "ParseUint 0 ds = Inr (foldl (\<lambda>a r. a * 10 + (r - 0x30)) 0 ds)"
    using assms(2,3) by (intro ParseUint_value) simp_all
  with assms(3) d show ?thesis
    unfolding ds by (simp add: ParseInt_def)
qed

lemma scanInt_digits:
  assumes "isDigit d" and "list_all isDigit ds" and "takeWhile isDigit rest = []"
    and "foldl (\<lambda>a r. a * 10 + (r - 0x30)) 0 (d # ds) < 0x8000000000000000"
  shows "scanInt (d # ds @ rest)
           = Inr (int (foldl (\<lambda>a r. a * 10 + (r - 0x30)) 0 (d # ds)), rest)"
proof -
  from assms(1) have d: "d \<noteq> 0x2B" "d \<noteq> 0x2D" by (auto simp: isDigit_def)
  have t: "takeWhile isDigit (ds @ rest) = ds"
    using assms(2,3) by (simp add: takeWhile_append2 list_all_iff)
  have "takeWhile isDigit rest @ dropWhile isDigit rest = rest" by simp
  with assms(3) have "dropWhile isDigit rest = rest" by simp
  then have dr: "dropWhile isDigit (ds @ rest) = rest"
    using assms(2) by (simp add: dropWhile_append2 list_all_iff)
  have p: "ParseInt (d # ds) = Inr (int (foldl (\<lambda>a r. a * 10 + (r - 0x30)) 0 (d # ds)))"
    using assms(1,2,4) by (intro ParseInt_digits) simp_all
  show ?thesis
    using assms(1) d t dr p by (simp add: scanInt_def SkipSpace_digit del: SkipSpace.simps)
qed

lemma Sscanf_digits:
  assumes "major \<noteq> []" and "list_all is_digit major"
    and "minor \<noteq> []" and "list_all is_digit minor"
    and "decimal_value major < 0x8000000000000000"
    and "decimal_value minor < 0x8000000000000000"
  shows "Sscanf_d_dot_d (major @ ''.'' @ minor)
           = Inr (int (decimal_value major), int (decimal_value minor))"
proof -
  let ?f = "\<lambda>a r. a * 10 + (r - (0x30 :: nat))"
  have v: "decimal_value ds = foldl ?f 0 (map of_char ds)" for ds
    by (simp add: decimal_value_def foldl_map)
  obtain a as where ma: "major = a # as" using assms(1) by (cases major) auto
  obtain b bs where mi: "minor = b # bs" using assms(3) by (cases minor) auto
  have da: "isDigit (of_char a)" "list_all isDigit (map of_char as)"
    using assms(2) by (simp_all add: ma list_all_iff isDigit_of_char)
  have db: "isDigit (of_char b)" "list_all isDigit (map of_char bs)"
    using assms(4) by (simp_all add: mi list_all_iff isDigit_of_char)
  have asc: "list_all (\<lambda>c. (of_char c :: nat) < 0x80) (major @ ''.'' @ minor)"
    using assms(2,4) by (auto simp: list_all_iff is_digit_ascii)
  have r: "runes (major @ ''.'' @ minor)
             = of_char a # map of_char as @ 0x2E # of_char b # map of_char bs"
    using runes_ascii [OF asc] by (simp add: ma mi)
  have i0: "scanInt (of_char a # map of_char as @ 0x2E # of_char b # map of_char bs)
              = Inr (int (decimal_value major), 0x2E # of_char b # map of_char bs)"
    using scanInt_digits [OF da(1) da(2), of "0x2E # of_char b # map of_char bs"] assms(5)
    by (simp add: v ma isDigit_def)
  have i1: "scanInt (of_char b # map of_char bs) = Inr (int (decimal_value minor), [])"
    using scanInt_digits [OF db(1) db(2), of "[]"] assms(6)
    by (simp add: v mi)
  show ?thesis
    unfolding Sscanf_d_dot_d_def r
    by (simp add: SkipSpace_digit da(1) db(1) i0 i1 del: SkipSpace.simps)
qed

subsection \<open>The function after a successful decoding\<close>

lemma ExtractUserDetails_decoded:
  assumes "event \<noteq> []" and "json_Unmarshal event RawEventDetails_zero = (res, None)"
  shows "ExtractUserDetails (Some event) =
     (case Sscanf_d_dot_d (EventVersion res) of
        Inl err \<Rightarrow> (Some RawEventDetails_zero, Some (VersionParseError err))
      | Inr (major, minor) \<Rightarrow>
          if major \<noteq> 1 \<or> minor < 8
          then (Some RawEventDetails_zero, Some (UnsupportedVersion (EventVersion res) 1 8))
          else (Some res, None))"
  using assms
  by (simp add: ExtractUserDetails_def supportedEventVersionMajor_def
        minSupportedEventVersionMinor_def split: sum.splits)

lemma scenario_decoded:
  "json_Unmarshal scenario_payload RawEventDetails_zero
     = (\<lparr>EventVersion = ''1.9'',
         UserIdentity = \<lparr>AccountId = ''123456789012'',
                          SessionContext = \<lparr>SessionIssuer = \<lparr>Type = [], UserName = [], Arn = []\<rparr>\<rparr>\<rparr>,
         EventRegion = ''us-east-1'', EventId = ''evt-1'', ErrorCode = []\<rparr>, None)"
  by (simp add: scenario_payload_def json_eval RawEventDetails_zero_def)

lemma scan_1_9: "Sscanf_d_dot_d ''1.9'' = Inr (1, 9)"
  by (simp add: scan_eval)

lemma scenario_nonempty: "scenario_payload \<noteq> []"
  by (simp add: scenario_payload_def)

lemma decode_assumed_role:
  \<open>json_Unmarshal
      ''{"eventVersion":"1.20","userIdentity":{"accountId":"42","sessionContext":{"sessionIssuer":{"type":"Role","userName":"admin","arn":"arn:aws:iam::42:role/admin"}}},"awsRegion":"eu-west-1","eventID":"e-7","errorCode":"AccessDenied"}''
      RawEventDetails_zero
     = (\<lparr>EventVersion = ''1.20'',
         UserIdentity =
           \<lparr>AccountId = ''42'',
            SessionContext =
              \<lparr>SessionIssuer = \<lparr>Type = ''Role'', UserName = ''admin'',
                                 Arn = ''arn:aws:iam::42:role/admin''\<rparr>\<rparr>\<rparr>,
         EventRegion = ''eu-west-1'', EventId = ''e-7'', ErrorCode = ''AccessDenied''\<rparr>, None)\<close>
  by (simp add: json_eval RawEventDetails_zero_def)

lemma scan_1_20: "Sscanf_d_dot_d ''1.20'' = Inr (1, 20)"
  by (simp add: scan_eval)

lemma decode_1_7: \<open>json_Unmarshal ''{"eventVersion":"1.7"}'' RawEventDetails_zero
     = (RawEventDetails_zero\<lparr>EventVersion := ''1.7''\<rparr>, None)\<close>
  by (simp add: json_eval RawEventDetails_zero_def)

lemma decode_1_8: \<open>json_Unmarshal ''{"eventVersion":"1.8"}'' RawEventDetails_zero
     = (RawEventDetails_zero\<lparr>EventVersion := ''1.8''\<rparr>, None)\<close>
  by (simp add: json_eval RawEventDetails_zero_def)

lemma decode_1_20: \<open>json_Unmarshal ''{"eventVersion":"1.20"}'' RawEventDetails_zero
     = (RawEventDetails_zero\<lparr>EventVersion := ''1.20''\<rparr>, None)\<close>
  by (simp add: json_eval RawEventDetails_zero_def)

lemma decode_2_8: \<open>json_Unmarshal ''{"eventVersion":"2.8"}'' RawEventDetails_zero
     = (RawEventDetails_zero\<lparr>EventVersion := ''2.8''\<rparr>, None)\<close>
  by (simp add: json_eval RawEventDetails_zero_def)

lemma decode_abc: \<open>json_Unmarshal ''{"eventVersion":"abc"}'' RawEventDetails_zero
     = (RawEventDetails_zero\<lparr>EventVersion := ''abc''\<rparr>, None)\<close>
  by (simp add: json_eval RawEventDetails_zero_def)

lemma decode_1: \<open>json_Unmarshal ''{"eventVersion":"1"}'' RawEventDetails_zero
     = (RawEventDetails_zero\<lparr>EventVersion := ''1''\<rparr>, None)\<close>
  by (simp add: json_eval RawEventDetails_zero_def)

lemma decode_blank_1_8: \<open>json_Unmarshal ''{"eventVersion":" 1.8"}'' RawEventDetails_zero
     = (RawEventDetails_zero\<lparr>EventVersion := '' 1.8''\<rparr>, None)\<close>
  by (simp add: json_eval RawEventDetails_zero_def)

lemma decode_1_8abc: \<open>json_Unmarshal ''{"eventVersion":"1.8abc"}'' RawEventDetails_zero
     = (RawEventDetails_zero\<lparr>EventVersion := ''1.8abc''\<rparr>, None)\<close>
  by (simp add: json_eval RawEventDetails_zero_def)

lemma scan_examples:
  "Sscanf_d_dot_d ''1.7'' = Inr (1, 7)"
  "Sscanf_d_dot_d ''1.8'' = Inr (1, 8)"
  "Sscanf_d_dot_d ''2.8'' = Inr (2, 8)"
  "Sscanf_d_dot_d ''abc'' = Inl ExpectedInteger"
  "Sscanf_d_dot_d ''1'' = Inl ErrUnexpectedEOF"
  "Sscanf_d_dot_d ''1.8abc'' = Inr (1, 8)"
  "Sscanf_d_dot_d '' 1.8'' = Inr (1, 8)"
  by (simp_all add: scan_eval)

lemma decode_old_version:
  \<open>json_Unmarshal ''{"eventVersion":"1.7","awsRegion":"us-east-1"}'' RawEventDetails_zero
     = (RawEventDetails_zero\<lparr>EventVersion := ''1.7'', EventRegion := ''us-east-1''\<rparr>, None)\<close>
  by (simp add: json_eval RawEventDetails_zero_def)

lemma decode_big_minor:
  \<open>json_Unmarshal ''{"eventVersion":"1.9223372036854775808"}'' RawEventDetails_zero
     = (RawEventDetails_zero\<lparr>EventVersion := ''1.9223372036854775808''\<rparr>, None)\<close>
  by (simp add: json_eval RawEventDetails_zero_def)

lemma scan_big_minor: "Sscanf_d_dot_d ''1.9223372036854775808'' = Inl ErrRange"
  by (simp add: scan_eval)

subsection \<open>Claims about the extractor\<close>

text \<open>
  C2, as stated, fails. The version \<open>1.9223372036854775808\<close> has the form
  \<open><integer>.<integer>\<close>, major component 1 and a minor component above 8, and the
  text decodes; but the minor component does not fit a signed 64-bit integer, the scan
  ends with a range error and the function fails with \<open>VersionParseError\<close>.
\<close>

theorem ExtractUserDetails_minor_out_of_range:
  \<open>integer_dot_integer ''1.9223372036854775808''
   \<and> decimal_value ''1'' = 1
   \<and> 8 \<le> decimal_value ''9223372036854775808''
   \<and> json_Unmarshal ''{"eventVersion":"1.9223372036854775808"}'' RawEventDetails_zero
       = (RawEventDetails_zero\<lparr>EventVersion := ''1.9223372036854775808''\<rparr>, None)
   \<and> ExtractUserDetails (Some ''{"eventVersion":"1.9223372036854775808"}'')
       = (Some RawEventDetails_zero, Some (VersionParseError ErrRange))\<close>
  by (simp add: ExtractUserDetails_decoded decode_big_minor scan_big_minor
        integer_dot_integer_def integer_literal_def is_digit_def decimal_value_def)

text \<open>
  C2, amended. When the text decodes without error and the decoded \<open>eventVersion\<close> is
  a run of decimal digits denoting 1, a dot, and a run of decimal digits denoting a number
  from 8 to 9223372036854775807, \<open>ExtractUserDetails\<close> succeeds and returns the decoded
  structure itself: every field is the one the decoder took from the JSON text. On the
  payload of the end-to-end scenario it returns \<open>EventVersion = 1.9\<close>,
  \<open>AccountId = 123456789012\<close>, \<open>EventRegion = us-east-1\<close>, \<open>EventId = evt-1\<close> and
  an empty \<open>ErrorCode\<close>.
\<close>

theorem ExtractUserDetails_version_in_range:
  \<open>(event \<noteq> [] \<and> json_Unmarshal event RawEventDetails_zero = (res, None)
      \<and> EventVersion res = major @ ''.'' @ minor
      \<and> major \<noteq> [] \<and> list_all is_digit major \<and> minor \<noteq> [] \<and> list_all is_digit minor
      \<and> decimal_value major = 1
      \<and> 8 \<le> decimal_value minor \<and> decimal_value minor \<le> 9223372036854775807
    \<longrightarrow> ExtractUserDetails (Some event) = (Some res, None))
   \<and> ExtractUserDetails (Some scenario_payload)
       = (Some \<lparr>EventVersion = ''1.9'',
                UserIdentity = \<lparr>AccountId = ''123456789012'',
                                 SessionContext =
                                   \<lparr>SessionIssuer = \<lparr>Type = [], UserName = [], Arn = []\<rparr>\<rparr>\<rparr>,
                EventRegion = ''us-east-1'', EventId = ''evt-1'', ErrorCode = []\<rparr>, None)\<close>
proof (intro conjI impI)
  assume a: "event \<noteq> [] \<and> json_Unmarshal event RawEventDetails_zero = (res, None)
      \<and> EventVersion res = major @ ''.'' @ minor
      \<and> major \<noteq> [] \<and> list_all is_digit major \<and> minor \<noteq> [] \<and> list_all is_digit minor
      \<and> decimal_value major = 1
      \<and> 8 \<le> decimal_value minor \<and> decimal_value minor \<le> 9223372036854775807"
  then have "Sscanf_d_dot_d (EventVersion res)
               = Inr (int (decimal_value major), int (decimal_value minor))"
    using Sscanf_digits [of major minor] by simp
  with a show "ExtractUserDetails (Some event) = (Some res, None)"
    by (simp add: ExtractUserDetails_decoded)
next
  show "ExtractUserDetails (Some scenario_payload)
       = (Some \<lparr>EventVersion = ''1.9'',
                UserIdentity = \<lparr>AccountId = ''123456789012'',
                                 SessionContext =
                                   \<lparr>SessionIssuer = \<lparr>Type = [], UserName = [], Arn = []\<rparr>\<rparr>\<rparr>,
                EventRegion = ''us-east-1'', EventId = ''evt-1'', ErrorCode = []\<rparr>, None)"
    by (simp add: ExtractUserDetails_decoded [OF scenario_nonempty scenario_decoded] scan_1_9)
qed

theorem ExtractUserDetails_version_in_range_witness:
  \<open>ExtractUserDetails (Some
      ''{"eventVersion":"1.20","userIdentity":{"accountId":"42","sessionContext":{"sessionIssuer":{"type":"Role","userName":"admin","arn":"arn:aws:iam::42:role/admin"}}},"awsRegion":"eu-west-1","eventID":"e-7","errorCode":"AccessDenied"}'')
     = (Some \<lparr>EventVersion = ''1.20'',
              UserIdentity =
                \<lparr>AccountId = ''42'',
                 SessionContext =
                   \<lparr>SessionIssuer = \<lparr>Type = ''Role'', UserName = ''admin'',
                                      Arn = ''arn:aws:iam::42:role/admin''\<rparr>\<rparr>\<rparr>,
              EventRegion = ''eu-west-1'', EventId = ''e-7'', ErrorCode = ''AccessDenied''\<rparr>,
        None)\<close>
  using ExtractUserDetails_version_in_range
          [where event = \<open>''{"eventVersion":"1.20","userIdentity":{"accountId":"42","sessionContext":{"sessionIssuer":{"type":"Role","userName":"admin","arn":"arn:aws:iam::42:role/admin"}}},"awsRegion":"eu-west-1","eventID":"e-7","errorCode":"AccessDenied"}''\<close>
             and major = "''1''" and minor = "''20''", THEN conjunct1, rule_format]
        decode_assumed_role
  by (simp add: decimal_value_def is_digit_def)

text \<open>
  C3. When the text decodes and the version scans as two integers, the function fails
  with \<open>UnsupportedVersion\<close> exactly when the major component is not 1 or the minor
  component is below 8, and otherwise returns the decoded structure with no error.
  Versions 1.7 and 2.8 are refused; 1.8 and 1.20 are accepted.
\<close>

theorem ExtractUserDetails_unsupported_version:
  \<open>(event \<noteq> [] \<and> json_Unmarshal event RawEventDetails_zero = (res, None)
      \<and> Sscanf_d_dot_d (EventVersion res) = Inr (major, minor)
    \<longrightarrow> (is_UnsupportedVersion (snd (ExtractUserDetails (Some event)))
           \<longleftrightarrow> major \<noteq> 1 \<or> minor < 8)
        \<and> ExtractUserDetails (Some event)
            = (if major \<noteq> 1 \<or> minor < 8
               then (Some RawEventDetails_zero,
                     Some (UnsupportedVersion (EventVersion res) 1 8))
               else (Some res, None)))
   \<and> ExtractUserDetails (Some ''{"eventVersion":"1.7"}'')
       = (Some RawEventDetails_zero, Some (UnsupportedVersion ''1.7'' 1 8))
   \<and> ExtractUserDetails (Some ''{"eventVersion":"2.8"}'')
       = (Some RawEventDetails_zero, Some (UnsupportedVersion ''2.8'' 1 8))
   \<and> ExtractUserDetails (Some ''{"eventVersion":"1.8"}'')
       = (Some (RawEventDetails_zero\<lparr>EventVersion := ''1.8''\<rparr>), None)
   \<and> ExtractUserDetails (Some ''{"eventVersion":"1.20"}'')
       = (Some (RawEventDetails_zero\<lparr>EventVersion := ''1.20''\<rparr>), None)\<close>
proof (intro conjI impI)
  assume a: "event \<noteq> [] \<and> json_Unmarshal event RawEventDetails_zero = (res, None)
      \<and> Sscanf_d_dot_d (EventVersion res) = Inr (major, minor)"
  then show "ExtractUserDetails (Some event)
            = (if major \<noteq> 1 \<or> minor < 8
               then (Some RawEventDetails_zero,
                     Some (UnsupportedVersion (EventVersion res) 1 8))
               else (Some res, None))"
    by (simp add: ExtractUserDetails_decoded)
  then show "is_UnsupportedVersion (snd (ExtractUserDetails (Some event)))
           \<longleftrightarrow> major \<noteq> 1 \<or> minor < 8"
    by simp
qed (simp_all add: ExtractUserDetails_decoded decode_1_7 decode_1_8 decode_1_20 decode_2_8
       scan_examples scan_1_20)

theorem ExtractUserDetails_unsupported_version_witness:
  \<open>is_UnsupportedVersion (snd (ExtractUserDetails (Some ''{"eventVersion":"1.7"}'')))
   \<and> \<not> is_UnsupportedVersion (snd (ExtractUserDetails (Some ''{"eventVersion":"1.8"}'')))\<close>
  using ExtractUserDetails_unsupported_version
          [where event = \<open>''{"eventVersion":"1.7"}''\<close> and major = 1 and minor = 7,
           THEN conjunct1, rule_format]
        ExtractUserDetails_unsupported_version
          [where event = \<open>''{"eventVersion":"1.8"}''\<close> and major = 1 and minor = 8,
           THEN conjunct1, rule_format]
        decode_1_7 decode_1_8 scan_examples
  by simp

text \<open>
  C4. A nil input reference and a reference to the empty string both give the error
  \<open>InvalidInput\<close>, whose message is \<open>cannot parse a nil input\<close>, together with the
  zero structure. The test for nil comes before the string is read, and the function has
  no other outcome on these inputs.
\<close>

theorem ExtractUserDetails_nil_or_empty:
  "ExtractUserDetails None = (Some RawEventDetails_zero, Some InvalidInput)
   \<and> ExtractUserDetails (Some []) = (Some RawEventDetails_zero, Some InvalidInput)
   \<and> Errorf_format InvalidInput = ''cannot parse a nil input''"
  by (simp add: ExtractUserDetails_def)

theorem ExtractUserDetails_nil_or_empty_witness:
  "snd (ExtractUserDetails None) = Some InvalidInput
   \<and> snd (ExtractUserDetails (Some '''')) = Some InvalidInput"
  using ExtractUserDetails_nil_or_empty by simp

text \<open>
  C6, as stated, fails. The versions \<open>1.8abc\<close> and \<open> 1.8\<close> (with a leading blank)
  are not of the form \<open><integer>.<integer>\<close>, yet the scan skips the blank, reads 1
  and 8 and ignores the rest: the function succeeds on both and returns the decoded
  structure.
\<close>

theorem ExtractUserDetails_accepts_trailing_text:
  \<open>\<not> integer_dot_integer ''1.8abc''
   \<and> ExtractUserDetails (Some ''{"eventVersion":"1.8abc"}'')
       = (Some (RawEventDetails_zero\<lparr>EventVersion := ''1.8abc''\<rparr>), None)
   \<and> \<not> integer_dot_integer '' 1.8''
   \<and> ExtractUserDetails (Some ''{"eventVersion":" 1.8"}'')
       = (Some (RawEventDetails_zero\<lparr>EventVersion := '' 1.8''\<rparr>), None)\<close>
  by (simp add: ExtractUserDetails_decoded decode_1_8abc decode_blank_1_8 scan_examples
        integer_dot_integer_def integer_literal_def is_digit_def)

text \<open>
  C6, amended. When the text decodes but the decoded \<open>eventVersion\<close> does not begin with
  \<open><integer>.<integer>\<close> (each integer an optionally signed run of decimal digits that
  white space may precede), the function fails with \<open>VersionParseError\<close> and returns the
  zero structure. So it does for the versions \<open>abc\<close> and \<open>1\<close>.
\<close>

theorem ExtractUserDetails_version_parse_error:
  \<open>(event \<noteq> [] \<and> json_Unmarshal event RawEventDetails_zero = (res, None)
      \<and> \<not> begins_with_version (EventVersion res)
    \<longrightarrow> is_VersionParseError (snd (ExtractUserDetails (Some event)))
        \<and> fst (ExtractUserDetails (Some event)) = Some RawEventDetails_zero)
   \<and> ExtractUserDetails (Some ''{"eventVersion":"abc"}'')
       = (Some RawEventDetails_zero, Some (VersionParseError ExpectedInteger))
   \<and> ExtractUserDetails (Some ''{"eventVersion":"1"}'')
       = (Some RawEventDetails_zero, Some (VersionParseError ErrUnexpectedEOF))\<close>
proof (intro conjI impI)
  assume a: "event \<noteq> [] \<and> json_Unmarshal event RawEventDetails_zero = (res, None)
      \<and> \<not> begins_with_version (EventVersion res)"
  then obtain err where "Sscanf_d_dot_d (EventVersion res) = Inl err"
    using Sscanf_form [of "EventVersion res"]
    by (cases "Sscanf_d_dot_d (EventVersion res)") auto
  with a have "ExtractUserDetails (Some event)
                 = (Some RawEventDetails_zero, Some (VersionParseError err))"
    by (simp add: ExtractUserDetails_decoded)
  then show "is_VersionParseError (snd (ExtractUserDetails (Some event)))"
    and "fst (ExtractUserDetails (Some event)) = Some RawEventDetails_zero"
    by simp_all
qed (simp_all add: ExtractUserDetails_decoded decode_abc decode_1 scan_examples)

theorem ExtractUserDetails_version_parse_error_witness:
  \<open>\<not> begins_with_version ''abc''
   \<and> is_VersionParseError (snd (ExtractUserDetails (Some ''{"eventVersion":"abc"}'')))
   \<and> fst (ExtractUserDetails (Some ''{"eventVersion":"abc"}'')) = Some RawEventDetails_zero\<close>
proof -
  have n: "\<not> begins_with_version ''abc''"
    by (simp add: begins_with_version_def integer_prefix_def skip_blanks_def DecodeRune_def
          isSpace_def isDigit_def)
  with decode_abc show ?thesis
    using ExtractUserDetails_version_parse_error
            [where event = \<open>''{"eventVersion":"abc"}''\<close>
               and res = "RawEventDetails_zero\<lparr>EventVersion := ''abc''\<rparr>",
             THEN conjunct1, rule_format]
    by simp
qed

text \<open>
  C9. Whenever \<open>ExtractUserDetails\<close> returns an error, the pointer it returns is not nil
  and points to the zero-valued structure: nothing decoded from the input comes with an
  error.
\<close>

theorem ExtractUserDetails_error_zero_value:
  "snd (ExtractUserDetails cloudTrailEvent) \<noteq> None
   \<longrightarrow> fst (ExtractUserDetails cloudTrailEvent) = Some RawEventDetails_zero"
  by (auto simp: ExtractUserDetails_def split: option.splits sum.splits prod.splits if_splits)

theorem ExtractUserDetails_error_zero_value_witness:
  \<open>snd (ExtractUserDetails (Some ''{"eventVersion":"1.7","awsRegion":"us-east-1"}''))
     = Some (UnsupportedVersion ''1.7'' 1 8)
   \<and> fst (ExtractUserDetails (Some ''{"eventVersion":"1.7","awsRegion":"us-east-1"}''))
     = Some RawEventDetails_zero\<close>
proof -
  have e: \<open>snd (ExtractUserDetails (Some ''{"eventVersion":"1.7","awsRegion":"us-east-1"}''))
     = Some (UnsupportedVersion ''1.7'' 1 8)\<close>
    by (simp add: ExtractUserDetails_decoded decode_old_version scan_examples)
  with ExtractUserDetails_error_zero_value
         [where cloudTrailEvent = \<open>Some ''{"eventVersion":"1.7","awsRegion":"us-east-1"}''\<close>]
  show ?thesis by simp
qed

end
